theory Spec2Isabelle
  imports Main "HOL-Library.Word"
begin

unbundle bit_operations_syntax

section \<open>Data model (client/schema.ts)\<close>

text \<open>
  A \<open>Uint8Array\<close> or \<open>Buffer\<close> is a list of bytes. A JavaScript \<open>number\<close> (and the
  \<open>BN\<close> of \<open>ProposalState\<close>) is an \<open>int\<close>: the schema's \<open>u32\<close> and \<open>u64\<close> fields
  are range-checked only when they are written. Field names follow the classes of
  schema.ts; where two classes use one name, the later one carries a prefix
  (\<open>pac_\<close> for ProtectedAccountConfig, \<open>init_\<close> for InitInstruction, \<open>instr_\<close> and
  \<open>config_\<close> for the \<open>data\<close> and \<open>instruction\<close> fields, \<open>state_\<close> for ProposalState).
\<close>

type_synonym byte = "8 word"

record GroupMember =
  publicKey :: "byte list"
  weight :: int

record GroupData =
  members :: "GroupMember list"
  threshold :: int

record ProtectedAccountConfig =
  pac_lamports :: int
  pac_space :: int
  pac_owner :: "byte list"

record InitInstruction =
  group_data :: GroupData
  init_lamports :: int
  protected_account_config :: "ProtectedAccountConfig option"

record ProposedAccountMeta =
  pubkey :: "byte list"
  is_signer :: bool
  is_writable :: bool

record ProposedInstruction =
  program_id :: "byte list"
  accounts :: "ProposedAccountMeta list"
  instr_data :: "byte list"

record ProposeInstruction =
  instruction :: ProposedInstruction
  lamports :: int

record ProposalState =
  state_members :: int
  current_weight :: int

record ProposalConfig =
  group :: "byte list"
  config_instruction :: ProposedInstruction

record ProposalData =
  config :: ProposalConfig
  state :: ProposalState

text \<open>
  \<open>InstructionData\<close> holds exactly one of its three optional fields, selected by the
  constructor's \<open>instanceof\<close> chain; \<open>variant\<close> is the string the constructor stores.
\<close>

datatype InstructionData =
  Init InitInstruction
| Propose ProposeInstruction
| Approve

fun variant :: "InstructionData \<Rightarrow> string" where
  "variant (Init _) = ''init''"
| "variant (Propose _) = ''propose''"
| "variant Approve = ''approve''"

section \<open>Errors\<close>

text \<open>
  Every \<open>throw\<close> of multisig.ts is a value: \<open>InvalidAccountOwner\<close> is
  'error: invalid account owner', \<open>DataIsZero\<close> is 'data is zero (proposal may be
  complete)', \<open>AccountDataEmpty\<close> is 'account data is empty', \<open>InvalidAccountType\<close> is
  'invalid account type'. The others are raised by the libraries the client calls: the
  serializer (\<open>BorshError\<close>, \<open>RangeError\<close>), \<open>new PublicKey\<close> (\<open>InvalidPublicKeyInput\<close>)
  and \<open>findProgramAddress\<close> (\<open>NoViableNonce\<close>).
\<close>

datatype error =
  InvalidAccountOwner
| DataIsZero
| AccountDataEmpty
| InvalidAccountType
| BorshError
| RangeError
| InvalidPublicKeyInput
| NoViableNonce

definition bindE :: "error + 'a \<Rightarrow> ('a \<Rightarrow> error + 'b) \<Rightarrow> error + 'b" where
  "bindE m f = (case m of Inl e \<Rightarrow> Inl e | Inr x \<Rightarrow> f x)"

section \<open>The binary writer\<close>

text \<open>
  Modelled from the spec: the primitive writers of the serialization library
  (\<open>serialize\<close> of the package \<open>borsh\<close>, imported by multisig.ts and not part of the
  sources). Section 4.1 of the specification fixes them: fixed-width unsigned integers
  are little-endian, 32-byte identifiers are written verbatim, a sequence is a 4-byte
  unsigned count followed by its elements, an optional value is a 1-byte presence flag
  followed by the value when present, a boolean is a 1-byte integer, and a tagged union
  is a 4-byte unsigned variant index followed by the variant's encoding. A value that
  does not fit its field (a number out of range, an identifier that is not 32 bytes
  long) makes the writer fail.
\<close>

definition le_bytes :: "nat \<Rightarrow> int \<Rightarrow> byte list" where
  "le_bytes w n = map (\<lambda>k. word_of_int (n div 256 ^ k)) [0..<w]"

definition write_uint :: "nat \<Rightarrow> int \<Rightarrow> error + byte list" where
  "write_uint w n =
     (if 0 \<le> n \<and> n < 256 ^ w then Inr (le_bytes w n) else Inl RangeError)"

text \<open>Modelled from the spec: the \<open>u32\<close> and \<open>u64\<close> writers, 4 and 8 bytes little-endian.\<close>

definition write_u32 :: "int \<Rightarrow> error + byte list" where
  "write_u32 n = write_uint 4 n"

definition write_u64 :: "int \<Rightarrow> error + byte list" where
  "write_u64 n = write_uint 8 n"

text \<open>
  Modelled from the spec: the writer of a fixed-size byte array such as a 32-byte
  identifier, written verbatim.
\<close>

definition write_fixed_array :: "nat \<Rightarrow> byte list \<Rightarrow> error + byte list" where
  "write_fixed_array n v = (if length v = n then Inr v else Inl BorshError)"

text \<open>
  Modelled from the spec: a writer emits its parts in order and stops at the first part
  that fails.
\<close>

fun write_all :: "(error + byte list) list \<Rightarrow> error + byte list" where
  "write_all [] = Inr []"
| "write_all (r # rs) =
     (case r of
        Inl e \<Rightarrow> Inl e
      | Inr bs \<Rightarrow> (case write_all rs of Inl e \<Rightarrow> Inl e | Inr cs \<Rightarrow> Inr (bs @ cs)))"

text \<open>
  Modelled from the spec: the writer of a sequence, a 4-byte unsigned count followed by
  each element's encoding.
\<close>

definition write_array :: "('a \<Rightarrow> error + byte list) \<Rightarrow> 'a list \<Rightarrow> error + byte list" where
  "write_array f xs = write_all (write_u32 (int (length xs)) # map f xs)"

text \<open>
  Modelled from the spec: the writer of an optional value, a 1-byte presence flag
  followed by the value's encoding when present.
\<close>

definition write_option :: "('a \<Rightarrow> error + byte list) \<Rightarrow> 'a option \<Rightarrow> error + byte list" where
  "write_option f v =
     (case v of None \<Rightarrow> Inr [0] | Some x \<Rightarrow> write_all [Inr [1], f x])"

text \<open>
  Modelled from the spec: the writer of the variant index of a tagged union, a 4-byte
  unsigned integer.
\<close>

definition write_enum_index :: "nat \<Rightarrow> error + byte list" where
  "write_enum_index idx = write_u32 (int idx)"

text \<open>\<open>boolMapper.encode\<close> of schema.ts, written as the \<open>u8\<close> the schema declares.\<close>

definition boolToInt :: "bool \<Rightarrow> int" where
  "boolToInt t = (if t then 1 else 0)"

text \<open>Modelled from the spec: the \<open>u8\<close> writer, one byte.\<close>

definition write_u8 :: "int \<Rightarrow> error + byte list" where
  "write_u8 n = write_uint 1 n"

section \<open>The schema (client/schema.ts)\<close>

text \<open>
  One serializer per entry of the \<open>schema\<close> map, its fields in the order and with the
  types the entry lists.
\<close>

definition serialize_GroupMember :: "GroupMember \<Rightarrow> error + byte list" where
  "serialize_GroupMember m =
     write_all [write_fixed_array 32 (publicKey m), write_u32 (weight m)]"

definition serialize_GroupData :: "GroupData \<Rightarrow> error + byte list" where
  "serialize_GroupData g =
     write_all [write_array serialize_GroupMember (members g), write_u32 (threshold g)]"

definition serialize_ApproveInstruction :: "error + byte list" where
  "serialize_ApproveInstruction = write_all []"

definition serialize_ProposedAccountMeta :: "ProposedAccountMeta \<Rightarrow> error + byte list" where
  "serialize_ProposedAccountMeta a =
     write_all [write_fixed_array 32 (pubkey a),
                write_u8 (boolToInt (is_signer a)),
                write_u8 (boolToInt (is_writable a))]"

definition serialize_ProposedInstruction :: "ProposedInstruction \<Rightarrow> error + byte list" where
  "serialize_ProposedInstruction i =
     write_all [write_fixed_array 32 (program_id i),
                write_array serialize_ProposedAccountMeta (accounts i),
                write_array (\<lambda>b. write_u8 (uint b)) (instr_data i)]"

definition serialize_ProposalState :: "ProposalState \<Rightarrow> error + byte list" where
  "serialize_ProposalState s =
     write_all [write_u64 (state_members s), write_u32 (current_weight s)]"

definition serialize_ProposalConfig :: "ProposalConfig \<Rightarrow> error + byte list" where
  "serialize_ProposalConfig c =
     write_all [write_fixed_array 32 (group c),
                serialize_ProposedInstruction (config_instruction c)]"

definition serialize_ProposalData :: "ProposalData \<Rightarrow> error + byte list" where
  "serialize_ProposalData d =
     write_all [serialize_ProposalConfig (config d), serialize_ProposalState (state d)]"

definition serialize_ProtectedAccountConfig :: "ProtectedAccountConfig \<Rightarrow> error + byte list" where
  "serialize_ProtectedAccountConfig p =
     write_all [write_u64 (pac_lamports p), write_u64 (pac_space p),
                write_fixed_array 32 (pac_owner p)]"

definition serialize_InitInstruction :: "InitInstruction \<Rightarrow> error + byte list" where
  "serialize_InitInstruction i =
     write_all [serialize_GroupData (group_data i),
                write_u64 (init_lamports i),
                write_option serialize_ProtectedAccountConfig (protected_account_config i)]"

definition serialize_ProposeInstruction :: "ProposeInstruction \<Rightarrow> error + byte list" where
  "serialize_ProposeInstruction p =
     write_all [serialize_ProposedInstruction (instruction p), write_u64 (lamports p)]"

text \<open>
  The \<open>enum\<close> entry of \<open>InstructionData\<close>: \<open>field: 'variant'\<close> and the list \<open>values\<close>.
  The index written is the position in \<open>values\<close> of the entry whose name is the
  object's \<open>variant\<close>. The constructor of \<open>InstructionData\<close> stores one of the three
  listed names or throws, so the name is always found.
\<close>

definition InstructionData_values :: "string list" where
  "InstructionData_values = [''init'', ''propose'', ''approve'']"

fun index_of :: "string \<Rightarrow> string list \<Rightarrow> nat option" where
  "index_of name [] = None"
| "index_of name (v # vs) =
     (if v = name then Some 0 else map_option Suc (index_of name vs))"

fun serialize_variant :: "InstructionData \<Rightarrow> error + byte list" where
  "serialize_variant (Init i) = serialize_InitInstruction i"
| "serialize_variant (Propose p) = serialize_ProposeInstruction p"
| "serialize_variant Approve = serialize_ApproveInstruction"

definition serialize_InstructionData :: "InstructionData \<Rightarrow> error + byte list" where
  "serialize_InstructionData d =
     (case index_of (variant d) InstructionData_values of
        None \<Rightarrow> Inl BorshError
      | Some idx \<Rightarrow> write_all [write_enum_index idx, serialize_variant d])"

section \<open>Public keys and the libraries the client calls\<close>

text \<open>
  Modelled from the spec: \<open>PublicKey\<close> of the package \<open>@solana/web3.js\<close> (not part of
  the sources), the 32-byte identifier of section 3. A key is the 256-bit number that
  its 32 bytes denote, most significant byte first, and \<open>equals\<close> is equality of the
  numbers.
\<close>

datatype PublicKey = PublicKey (bn: "256 word")

definition be_int :: "byte list \<Rightarrow> int" where
  "be_int bs = foldl (\<lambda>a b. a * 256 + uint b) 0 bs"

text \<open>
  Modelled from the spec: \<open>new PublicKey(bytes)\<close>. The specification speaks of 32-byte
  identifiers only; on other input the model follows the package, which reads the bytes
  as one number and throws when that number does not fit 32 bytes.
\<close>

definition new_PublicKey :: "byte list \<Rightarrow> error + PublicKey" where
  "new_PublicKey bs =
     (if be_int bs < 2 ^ 256 then Inr (PublicKey (word_of_int (be_int bs)))
      else Inl InvalidPublicKeyInput)"

text \<open>Modelled from the spec: \<open>toBuffer\<close>, the 32 bytes of the identifier.\<close>

definition toBuffer :: "PublicKey \<Rightarrow> byte list" where
  "toBuffer k = map (\<lambda>i. ucast (drop_bit (8 * (31 - i)) (bn k))) [0..<32]"

text \<open>
  The functions of other packages that the client calls are parameters of the model:
  \<open>SHA256\<close> is the digest (\<open>CryptoJS.SHA256\<close>, read back from its hexadecimal string by
  \<open>Buffer.from(_, 'hex')\<close>) as a function of the bytes its argument holds,
  \<open>findProgramAddress\<close> is \<open>PublicKey.findProgramAddress\<close>, which returns an address and
  a nonce or throws, and \<open>SystemProgram_programId\<close> is the constant
  \<open>SystemProgram.programId\<close>.
\<close>

record lib =
  SHA256 :: "byte list \<Rightarrow> byte list"
  findProgramAddress :: "byte list list \<Rightarrow> PublicKey \<Rightarrow> error + (PublicKey \<times> nat)"
  SystemProgram_programId :: PublicKey

text \<open>
  A \<open>CryptoJS.lib.WordArray\<close>: 32-bit words and the number of significant bytes. The
  bytes it holds are read most significant byte first, byte \<open>i\<close> being
  \<open>(words[i >>> 2] >>> (24 - (i % 4) * 8)) & 0xff\<close>; a word that is missing reads as 0.
\<close>

record WordArray =
  words :: "32 word list"
  sigBytes :: nat

definition word_at :: "32 word list \<Rightarrow> nat \<Rightarrow> 32 word" where
  "word_at ws k = (if k < length ws then ws ! k else 0)"

definition word_array_byte :: "32 word list \<Rightarrow> nat \<Rightarrow> byte" where
  "word_array_byte ws i = ucast (drop_bit (24 - (i mod 4) * 8) (word_at ws (i div 4)))"

definition wordArrayBytes :: "WordArray \<Rightarrow> byte list" where
  "wordArrayBytes w = map (word_array_byte (words w)) [0..<sigBytes w]"

section \<open>The protocol client (multisig.ts)\<close>

subsection \<open>Helpers at the end of the file\<close>

text \<open>
  \<open>wa[k] |= v\<close> on a JavaScript array: an element that exists is or-ed with \<open>v\<close>; one
  past the end is created (\<open>undefined | v\<close> is \<open>v\<close>), the elements before it, if any
  were missing, reading as 0.
\<close>

definition or_at :: "32 word list \<Rightarrow> nat \<Rightarrow> 32 word \<Rightarrow> 32 word list" where
  "or_at wa k v =
     (if k < length wa then wa[k := (wa ! k) OR v]
      else wa @ replicate (k - length wa) 0 @ [v])"

text \<open>
  The loop of \<open>byteArrayToWordArray\<close>: \<open>wa[(i / 4) | 0] |= ba[i] << (24 - 8 * i)\<close>.
  JavaScript's \<open><<\<close> takes its shift count modulo 32.
\<close>

function byteArrayToWordArray_loop :: "byte list \<Rightarrow> nat \<Rightarrow> 32 word list \<Rightarrow> 32 word list" where
  "byteArrayToWordArray_loop ba i wa =
     (if i < length ba
      then byteArrayToWordArray_loop ba (i + 1)
             (or_at wa (i div 4) (push_bit (nat ((24 - 8 * int i) mod 32)) (ucast (ba ! i))))
      else wa)"
  by pat_completeness auto
termination
  by (relation "measure (\<lambda>(ba, i, wa). length ba - i)") auto

declare byteArrayToWordArray_loop.simps [simp del]

definition byteArrayToWordArray :: "byte list \<Rightarrow> WordArray" where
  "byteArrayToWordArray ba =
     \<lparr>words = byteArrayToWordArray_loop ba 0 [], sigBytes = length ba\<rparr>"

definition PDA_TAG_group :: "byte list" where
  "PDA_TAG_group = [0]"

definition PDA_TAG_proposal :: "byte list" where
  "PDA_TAG_proposal = [1]"

definition PDA_TAG_protected :: "byte list" where
  "PDA_TAG_protected = [2]"

definition ACCOUNT_TYPE_TAG_group :: byte where
  "ACCOUNT_TYPE_TAG_group = 0"

definition ACCOUNT_TYPE_TAG_proposal :: byte where
  "ACCOUNT_TYPE_TAG_proposal = 1"

definition checkAccountType :: "byte list \<Rightarrow> byte \<Rightarrow> error + unit" where
  "checkAccountType data expected =
     (if length data = 0 then Inl AccountDataEmpty
      else if data ! 0 \<noteq> expected then Inl InvalidAccountType
      else Inr ())"

fun anyNonZero :: "byte list \<Rightarrow> bool" where
  "anyNonZero [] = False"
| "anyNonZero (byte # buffer) = (if byte \<noteq> 0 then True else anyNonZero buffer)"

subsection \<open>The class MultiSig\<close>

record MultiSig =
  programId :: PublicKey

text \<open>
  \<open>CryptoJS.SHA256(byteArrayToWordArray(bytes)).toString()\<close> read back by
  \<open>Buffer.from(hash_str, 'hex')\<close>: the digest of the bytes the word array holds.
\<close>

definition sha256_hash :: "lib \<Rightarrow> byte list \<Rightarrow> byte list" where
  "sha256_hash L bytes = SHA256 L (wordArrayBytes (byteArrayToWordArray bytes))"

definition groupAccountKey :: "lib \<Rightarrow> MultiSig \<Rightarrow> GroupData \<Rightarrow> error + PublicKey" where
  "groupAccountKey L this groupData =
     bindE (serialize_GroupData groupData) (\<lambda>serializedGroup.
     bindE (findProgramAddress L [PDA_TAG_group, sha256_hash L serializedGroup]
              (programId this)) (\<lambda>(groupKey, nonce).
     Inr groupKey))"

definition protectedAccountKey :: "lib \<Rightarrow> MultiSig \<Rightarrow> PublicKey \<Rightarrow> error + PublicKey" where
  "protectedAccountKey L this groupKey =
     bindE (findProgramAddress L [PDA_TAG_protected, toBuffer groupKey]
              (programId this)) (\<lambda>(protectedAccount, nonce).
     Inr protectedAccount)"

definition proposalAccountKey :: "lib \<Rightarrow> MultiSig \<Rightarrow> ProposalConfig \<Rightarrow> error + PublicKey" where
  "proposalAccountKey L this proposalConfig =
     bindE (serialize_ProposalConfig proposalConfig) (\<lambda>serializedProposedConfig.
     bindE (findProgramAddress L [PDA_TAG_proposal, sha256_hash L serializedProposedConfig]
              (programId this)) (\<lambda>(proposalKey, nonce2).
     Inr proposalKey))"

definition groupAccountSpace :: "GroupData \<Rightarrow> error + nat" where
  "groupAccountSpace groupData =
     bindE (serialize_GroupData groupData) (\<lambda>serializedGroup.
     Inr (length serializedGroup + 1))"

definition mockState :: ProposalState where
  "mockState = \<lparr>state_members = 1, current_weight = 1\<rparr>"

definition proposalAccountSpace :: "ProposalConfig \<Rightarrow> error + nat" where
  "proposalAccountSpace cfg =
     bindE (serialize_ProposalData \<lparr>config = cfg, state = mockState\<rparr>) (\<lambda>bytes.
     Inr (length bytes + 4 + 1))"

text \<open>
  The account read from the chain; of \<open>AccountInfo<Buffer>\<close> the client uses \<open>owner\<close>
  and \<open>data\<close>. \<open>deserialize(schema, C, bytes)\<close> belongs to the serialization library
  and is the parameter \<open>deserialize\<close> of the two readers; \<open>data.slice(1)\<close> is
  \<open>drop 1 data\<close>.
\<close>

record AccountInfo =
  owner :: PublicKey
  data :: "byte list"

definition readGroupAccountData ::
  "(byte list \<Rightarrow> error + 'g) \<Rightarrow> MultiSig \<Rightarrow> AccountInfo \<Rightarrow> error + 'g" where
  "readGroupAccountData deserialize this info =
     (if owner info \<noteq> programId this then Inl InvalidAccountOwner
      else bindE (checkAccountType (data info) ACCOUNT_TYPE_TAG_group) (\<lambda>_.
           deserialize (drop 1 (data info))))"

definition readProposalAccountData ::
  "(byte list \<Rightarrow> error + 'p) \<Rightarrow> MultiSig \<Rightarrow> AccountInfo \<Rightarrow> error + 'p" where
  "readProposalAccountData deserialize this info =
     (if owner info \<noteq> programId this then Inl InvalidAccountOwner
      else if \<not> anyNonZero (data info) then Inl DataIsZero
      else bindE (checkAccountType (data info) ACCOUNT_TYPE_TAG_proposal) (\<lambda>_.
           deserialize (drop 1 (data info))))"

text \<open>
  An entry of \<open>keys\<close> (\<open>pubkey\<close>, \<open>isSigner\<close>, \<open>isWritable\<close>; the first is \<open>key_pubkey\<close>
  here, \<open>pubkey\<close> being the field of \<open>ProposedAccountMeta\<close>) and the
  \<open>TransactionInstruction\<close> the client returns (\<open>keys\<close>, \<open>programId\<close>, \<open>data\<close>).
\<close>

record AccountMeta =
  key_pubkey :: PublicKey
  isSigner :: bool
  isWritable :: bool

record TransactionInstruction =
  keys :: "AccountMeta list"
  ti_programId :: PublicKey
  ti_data :: "byte list"

text \<open>
  The callback that \<open>propose\<close> and \<open>approve\<close> map over the proposed instruction's
  accounts; \<open>new PublicKey\<close> may throw, which ends the whole call.
\<close>

definition rewrite_account :: "PublicKey \<Rightarrow> ProposedAccountMeta \<Rightarrow> error + AccountMeta" where
  "rewrite_account protectedKey account =
     bindE (new_PublicKey (pubkey account)) (\<lambda>k.
     Inr \<lparr>key_pubkey = k,
          isSigner = (if protectedKey = k then False else is_signer account),
          isWritable = is_writable account\<rparr>)"

fun mapE :: "('a \<Rightarrow> error + 'b) \<Rightarrow> 'a list \<Rightarrow> error + 'b list" where
  "mapE f [] = Inr []"
| "mapE f (x # xs) = bindE (f x) (\<lambda>y. bindE (mapE f xs) (\<lambda>ys. Inr (y # ys)))"

definition propose ::
  "lib \<Rightarrow> MultiSig \<Rightarrow> ProposeInstruction \<Rightarrow> PublicKey \<Rightarrow> PublicKey
     \<Rightarrow> error + TransactionInstruction" where
  "propose L this d groupKey signerKey =
     bindE (proposalAccountKey L this
              \<lparr>group = toBuffer groupKey, config_instruction = instruction d\<rparr>)
       (\<lambda>proposalKey.
     bindE (protectedAccountKey L this groupKey) (\<lambda>protectedKey.
     bindE (serialize_InstructionData (Propose d)) (\<lambda>buffer.
     bindE (new_PublicKey (program_id (instruction d))) (\<lambda>target.
     bindE (mapE (rewrite_account protectedKey) (accounts (instruction d)))
       (\<lambda>rest.
     Inr \<lparr>keys =
            [\<lparr>key_pubkey = signerKey, isSigner = True, isWritable = True\<rparr>,
             \<lparr>key_pubkey = groupKey, isSigner = False, isWritable = True\<rparr>,
             \<lparr>key_pubkey = proposalKey, isSigner = False, isWritable = True\<rparr>,
             \<lparr>key_pubkey = SystemProgram_programId L, isSigner = False,
              isWritable = False\<rparr>,
             \<lparr>key_pubkey = target, isSigner = False, isWritable = False\<rparr>] @ rest,
          ti_programId = programId this,
          ti_data = buffer\<rparr>)))))"


section \<open>Results and errors\<close>

lemma bindE_Inr_iff: "bindE m f = Inr y \<longleftrightarrow> (\<exists>x. m = Inr x \<and> f x = Inr y)"
  by (cases m) (simp_all add: bindE_def)

lemma bindE_Inr [simp]: "bindE (Inr x) f = f x"
  by (simp add: bindE_def)

lemma bindE_Inl [simp]: "bindE (Inl e) f = Inl e"
  by (simp add: bindE_def)


lemma mapE_total:
  assumes "\<forall>x\<in>set xs. f x = Inr (g x)"
  shows "mapE f xs = Inr (map g xs)"
  using assms by (induction xs) simp_all

section \<open>What the writer emits\<close>

lemma write_all_Cons_Inr:
  "write_all (r # rs) = Inr bs \<longleftrightarrow>
     (\<exists>x y. r = Inr x \<and> write_all rs = Inr y \<and> bs = x @ y)"
  by (auto split: sum.splits)

declare write_all.simps(2) [simp del]

lemma write_uint_length: "write_uint w n = Inr bs \<Longrightarrow> length bs = w"
  by (auto simp: write_uint_def le_bytes_def split: if_splits)

lemma write_u32_length: "write_u32 n = Inr bs \<Longrightarrow> length bs = 4"
  unfolding write_u32_def by (rule write_uint_length)

lemma write_u64_length: "write_u64 n = Inr bs \<Longrightarrow> length bs = 8"
  unfolding write_u64_def by (rule write_uint_length)

lemma write_u8_length: "write_u8 n = Inr bs \<Longrightarrow> length bs = 1"
  unfolding write_u8_def by (rule write_uint_length)

lemma write_fixed_array_Inr:
  "write_fixed_array n v = Inr bs \<longleftrightarrow> length v = n \<and> bs = v"
  by (auto simp: write_fixed_array_def)

lemma write_all_map_Inr:
  "write_all (map f xs) = Inr bs \<Longrightarrow> \<forall>x\<in>set xs. \<exists>b. f x = Inr b"
  by (induction xs arbitrary: bs) (auto simp: write_all_Cons_Inr)

text \<open>Elements of one size \<open>k\<close> make an array of \<open>4 + k * n\<close> bytes.\<close>

lemma write_all_map_length:
  assumes "\<forall>x\<in>set xs. \<forall>b. f x = Inr b \<longrightarrow> length b = k"
    and "write_all (map f xs) = Inr bs"
  shows "length bs = k * length xs"
  using assms
proof (induction xs arbitrary: bs)
  case Nil
  then show ?case by simp
next
  case (Cons x xs)
  from Cons.prems(2) obtain b c where
    b: "f x = Inr b" and c: "write_all (map f xs) = Inr c" and bs: "bs = b @ c"
    by (auto simp: write_all_Cons_Inr)
  have "length b = k" using Cons.prems(1) b by simp
  moreover have "length c = k * length xs"
    using Cons.IH [OF _ c] Cons.prems(1) by simp
  ultimately show ?case using bs by simp
qed

lemma write_array_length:
  assumes "\<forall>x\<in>set xs. \<forall>b. f x = Inr b \<longrightarrow> length b = k"
    and "write_array f xs = Inr bs"
  shows "length bs = 4 + k * length xs"
proof -
  from assms(2) obtain b c where
    b: "write_u32 (int (length xs)) = Inr b" and c: "write_all (map f xs) = Inr c"
    and bs: "bs = b @ c"
    by (auto simp: write_array_def write_all_Cons_Inr)
  show ?thesis
    using write_u32_length [OF b] write_all_map_length [OF assms(1) c] bs by simp
qed

lemma serialize_GroupMember_length:
  "serialize_GroupMember m = Inr bs \<Longrightarrow> length bs = 36"
  by (auto simp: serialize_GroupMember_def write_all_Cons_Inr write_fixed_array_Inr
      dest!: write_u32_length)

lemma serialize_GroupData_length:
  assumes "serialize_GroupData g = Inr bs"
  shows "length bs = 4 + 36 * length (members g) + 4"
proof -
  from assms obtain b c where
    b: "write_array serialize_GroupMember (members g) = Inr b"
    and c: "write_u32 (threshold g) = Inr c" and bs: "bs = b @ c"
    by (auto simp: serialize_GroupData_def write_all_Cons_Inr)
  have "length b = 4 + 36 * length (members g)"
    by (rule write_array_length [OF _ b]) (simp add: serialize_GroupMember_length)
  then show ?thesis using write_u32_length [OF c] bs by simp
qed

lemma write_uint_total: "0 \<le> n \<Longrightarrow> n < 256 ^ w \<Longrightarrow> write_uint w n = Inr (le_bytes w n)"
  by (simp add: write_uint_def)

lemma write_all_map_total:
  "\<forall>x\<in>set xs. \<exists>b. f x = Inr b \<Longrightarrow> \<exists>bs. write_all (map f xs) = Inr bs"
  by (induction xs) (auto simp: write_all_Cons_Inr)

text \<open>
  A group whose members have 32-byte keys and whose numbers fit their fields has a
  canonical encoding.
\<close>

lemma serialize_GroupData_total:
  assumes "\<forall>m\<in>set (members g). length (publicKey m) = 32 \<and> 0 \<le> weight m \<and> weight m < 2 ^ 32"
    and "0 \<le> threshold g" and "threshold g < 2 ^ 32"
    and "length (members g) < 2 ^ 32"
  shows "\<exists>bs. serialize_GroupData g = Inr bs"
proof -
  have "\<forall>m\<in>set (members g). \<exists>b. serialize_GroupMember m = Inr b"
    using assms(1)
    by (auto simp: serialize_GroupMember_def write_all_Cons_Inr write_fixed_array_Inr
        write_u32_def write_uint_def)
  from write_all_map_total [OF this] obtain ms where
    ms: "write_all (map serialize_GroupMember (members g)) = Inr ms" ..
  have n: "write_u32 (int (length (members g))) = Inr (le_bytes 4 (int (length (members g))))"
    using assms(4) by (simp add: write_u32_def write_uint_def)
  have t: "write_u32 (threshold g) = Inr (le_bytes 4 (threshold g))"
    using assms(2,3) by (simp add: write_u32_def write_uint_def)
  show ?thesis
    using ms n t by (simp add: serialize_GroupData_def write_array_def write_all_Cons_Inr)
qed

lemma serialize_ProposalState_length:
  "serialize_ProposalState s = Inr bs \<Longrightarrow> length bs = 12"
  by (auto simp: serialize_ProposalState_def write_all_Cons_Inr
      dest!: write_u64_length write_u32_length)

lemma serialize_mockState:
  "serialize_ProposalState mockState = Inr [1, 0, 0, 0, 0, 0, 0, 0, 1, 0, 0, 0]"
  by code_simp

lemma serialize_ProposalData_Inr:
  "serialize_ProposalData d = Inr bs \<longleftrightarrow>
     (\<exists>c s. serialize_ProposalConfig (config d) = Inr c
          \<and> serialize_ProposalState (state d) = Inr s \<and> bs = c @ s)"
  by (auto simp: serialize_ProposalData_def write_all_Cons_Inr)

text \<open>A serialized instruction has 32-byte identifiers throughout.\<close>

lemma serialize_ProposedAccountMeta_key:
  "serialize_ProposedAccountMeta a = Inr b \<Longrightarrow> length (pubkey a) = 32"
  by (auto simp: serialize_ProposedAccountMeta_def write_all_Cons_Inr write_fixed_array_Inr)

lemma serialize_ProposedInstruction_keys:
  assumes "serialize_ProposedInstruction i = Inr bs"
  shows "length (program_id i) = 32 \<and> (\<forall>a\<in>set (accounts i). length (pubkey a) = 32)"
proof -
  from assms obtain c where
    p: "length (program_id i) = 32"
    and c: "write_array serialize_ProposedAccountMeta (accounts i) = Inr c"
    by (auto simp: serialize_ProposedInstruction_def write_all_Cons_Inr write_fixed_array_Inr)
  from c obtain c' where "write_all (map serialize_ProposedAccountMeta (accounts i)) = Inr c'"
    by (auto simp: write_array_def write_all_Cons_Inr)
  from write_all_map_Inr [OF this] p show ?thesis
    by (auto dest: serialize_ProposedAccountMeta_key)
qed

lemma serialize_ProposalConfig_keys:
  assumes "serialize_ProposalConfig c = Inr bs"
  shows "length (program_id (config_instruction c)) = 32
       \<and> (\<forall>a\<in>set (accounts (config_instruction c)). length (pubkey a) = 32)"
proof -
  from assms obtain b where "serialize_ProposedInstruction (config_instruction c) = Inr b"
    by (auto simp: serialize_ProposalConfig_def write_all_Cons_Inr)
  then show ?thesis by (rule serialize_ProposedInstruction_keys)
qed

section \<open>Public keys\<close>

lemma foldl_be_bound:
  "acc < 256 ^ n \<Longrightarrow>
     foldl (\<lambda>a b. a * 256 + uint (b :: byte)) acc bs < 256 ^ (n + length bs)"
proof (induction bs arbitrary: acc n)
  case Nil
  then show ?case by simp
next
  case (Cons b bs)
  have "uint b < 256" using uint_lt2p [of b] by simp
  with Cons.prems have "acc * 256 + uint b < 256 ^ Suc n" by simp
  from Cons.IH [OF this] show ?case by simp
qed

lemma be_int_bound: "be_int bs < 256 ^ length bs"
  using foldl_be_bound [of 0 0 bs] by (simp add: be_int_def)

lemma new_PublicKey_32:
  assumes "length bs = 32"
  shows "new_PublicKey bs = Inr (PublicKey (word_of_int (be_int bs)))"
proof -
  have "be_int bs < 256 ^ 32" using be_int_bound [of bs] assms by simp
  also have "(256 :: int) ^ 32 = 2 ^ 256" by simp
  finally show ?thesis by (simp add: new_PublicKey_def)
qed

section \<open>The word array holds the bytes it was made from\<close>

lemma shift_count: "nat ((24 - 8 * int i) mod 32) = 24 - (i mod 4) * 8"
proof -
  define r where "r = i mod 4"
  define q where "q = i div 4"
  have "i = 4 * q + r" by (simp add: r_def q_def)
  then have i: "int i = 4 * int q + int r" by simp
  have r: "r < 4" by (simp add: r_def)
  have "24 - 8 * int i = (24 - 8 * int r) + 32 * (- int q)" by (simp add: i)
  then have "(24 - 8 * int i) mod 32 = (24 - 8 * int r) mod 32"
    by (simp only: mod_mult_self2)
  also have "\<dots> = 24 - 8 * int r" using r by simp
  finally have "nat ((24 - 8 * int i) mod 32) = nat (24 - 8 * int r)" by simp
  also have "\<dots> = 24 - r * 8" by arith
  finally show ?thesis by (simp add: r_def)
qed

lemma word_at_or_at:
  "word_at (or_at wa k0 v) k = (if k = k0 then word_at wa k OR v else word_at wa k)"
  by (auto simp: word_at_def or_at_def nth_append nth_Cons')

lemma byte_or_same:
  fixes w :: "32 word" and b :: byte
  assumes "s \<le> 24"
  shows "(ucast (drop_bit s (w OR push_bit s (ucast b))) :: byte) = ucast (drop_bit s w) OR b"
  using assms by (intro bit_word_eqI) (auto simp: bit_simps)

lemma byte_or_other:
  fixes w :: "32 word" and b :: byte
  assumes "s' + 8 \<le> s \<or> s + 8 \<le> s'"
  shows "(ucast (drop_bit s' (w OR push_bit s (ucast b))) :: byte) = ucast (drop_bit s' w)"
  using assms by (intro bit_word_eqI) (auto simp: bit_simps dest: bit_imp_le_length)

text \<open>One step of the loop sets byte \<open>i\<close> and leaves every other byte as it was.\<close>

lemma word_array_byte_or_at:
  "word_array_byte (or_at wa (i div 4) (push_bit (24 - (i mod 4) * 8) (ucast b))) j
     = word_array_byte wa j OR (if j = i then b else 0)"
proof (cases "j div 4 = i div 4")
  case False
  then have "j \<noteq> i" by auto
  with False show ?thesis by (simp add: word_array_byte_def word_at_or_at)
next
  case True
  show ?thesis
  proof (cases "j mod 4 = i mod 4")
    case same: True
    have "j = i" using True same by (metis div_mult_mod_eq)
    have "24 - (i mod 4) * 8 \<le> 24" by simp
    from byte_or_same [OF this] show ?thesis
      using \<open>j = i\<close> by (simp add: word_array_byte_def word_at_or_at)
  next
    case False
    then have ne: "j \<noteq> i" by auto
    have "j mod 4 < 4" "i mod 4 < 4" by simp_all
    with False have "24 - (j mod 4) * 8 + 8 \<le> 24 - (i mod 4) * 8
        \<or> 24 - (i mod 4) * 8 + 8 \<le> 24 - (j mod 4) * 8"
      by arith
    from byte_or_other [OF this] show ?thesis
      using ne True by (simp add: word_array_byte_def word_at_or_at)
  qed
qed

text \<open>
  The loop invariant: after \<open>i\<close> steps the first \<open>i\<close> bytes of the word array are those
  of \<open>ba\<close> and all later bytes are 0.
\<close>

lemma byteArrayToWordArray_loop_bytes:
  assumes "i \<le> length ba"
    and "\<forall>j. word_array_byte wa j = (if j < i then ba ! j else 0)"
  shows "word_array_byte (byteArrayToWordArray_loop ba i wa) j
           = (if j < length ba then ba ! j else 0)"
  using assms
proof (induction ba i wa rule: byteArrayToWordArray_loop.induct)
  case (1 ba i wa)
  show ?case
  proof (cases "i < length ba")
    case False
    with "1.prems" have "i = length ba" by simp
    with "1.prems" False show ?thesis
      by (subst byteArrayToWordArray_loop.simps) simp
  next
    case True
    let ?wa = "or_at wa (i div 4) (push_bit (nat ((24 - 8 * int i) mod 32)) (ucast (ba ! i)))"
    have inv: "\<forall>j. word_array_byte ?wa j = (if j < i + 1 then ba ! j else 0)"
      using "1.prems"(2) by (auto simp: shift_count word_array_byte_or_at)
    have "word_array_byte (byteArrayToWordArray_loop ba (i + 1) ?wa) j
            = (if j < length ba then ba ! j else 0)"
      using True inv by (intro "1.IH") simp_all
    with True show ?thesis
      by (subst byteArrayToWordArray_loop.simps) simp
  qed
qed

lemma wordArrayBytes_byteArrayToWordArray:
  "wordArrayBytes (byteArrayToWordArray ba) = ba"
proof -
  have "word_array_byte [] j = 0" for j
    by (simp add: word_array_byte_def word_at_def)
  then have b: "word_array_byte (byteArrayToWordArray_loop ba 0 []) j
               = (if j < length ba then ba ! j else 0)" for j
    by (intro byteArrayToWordArray_loop_bytes) simp_all
  show ?thesis
    unfolding wordArrayBytes_def byteArrayToWordArray_def
    by (intro nth_equalityI) (simp_all add: b)
qed

lemma sha256_hash_bytes: "sha256_hash L bytes = SHA256 L bytes"
  by (simp add: sha256_hash_def wordArrayBytes_byteArrayToWordArray)

section \<open>What propose and approve return\<close>

lemma proposalAccountKey_Inr:
  "proposalAccountKey L this c = Inr k \<Longrightarrow> \<exists>bs. serialize_ProposalConfig c = Inr bs"
  by (auto simp: proposalAccountKey_def bindE_Inr_iff)


lemma rewrite_account_32:
  "length (pubkey a) = 32 \<Longrightarrow>
     rewrite_account protectedKey a =
       Inr \<lparr>key_pubkey = PublicKey (word_of_int (be_int (pubkey a))),
            isSigner = (PublicKey (word_of_int (be_int (pubkey a))) \<noteq> protectedKey
                        \<and> is_signer a),
            isWritable = is_writable a\<rparr>"
  by (auto simp: rewrite_account_def new_PublicKey_32)

lemma propose_Inr:
  assumes "propose L this d groupKey signerKey = Inr ti"
  shows "\<exists>proposalKey protectedKey buffer target rest.
           proposalAccountKey L this
             \<lparr>group = toBuffer groupKey, config_instruction = instruction d\<rparr> = Inr proposalKey
         \<and> protectedAccountKey L this groupKey = Inr protectedKey
         \<and> serialize_InstructionData (Propose d) = Inr buffer
         \<and> new_PublicKey (program_id (instruction d)) = Inr target
         \<and> mapE (rewrite_account protectedKey) (accounts (instruction d)) = Inr rest
         \<and> ti = \<lparr>keys =
                   [\<lparr>key_pubkey = signerKey, isSigner = True, isWritable = True\<rparr>,
                    \<lparr>key_pubkey = groupKey, isSigner = False, isWritable = True\<rparr>,
                    \<lparr>key_pubkey = proposalKey, isSigner = False, isWritable = True\<rparr>,
                    \<lparr>key_pubkey = SystemProgram_programId L, isSigner = False,
                     isWritable = False\<rparr>,
                    \<lparr>key_pubkey = target, isSigner = False, isWritable = False\<rparr>] @ rest,
                 ti_programId = programId this, ti_data = buffer\<rparr>"
  using assms unfolding propose_def bindE_Inr_iff by blast



section \<open>Account sizes\<close>

text \<open>
  Claim C8, as amended. For every GroupData with \<open>N\<close> members that has a canonical
  encoding, the encoding is \<open>4 + 36 * N + 4\<close> bytes long (a 4-byte member count,
  36 bytes per member, a 4-byte threshold) and \<open>groupAccountSpace\<close> returns that length
  plus one byte, the account-type tag, that is \<open>36 * N + 9\<close>. It adds no bytes for a
  length prefix; only \<open>proposalAccountSpace\<close> does. For \<open>N = 0, 1, 5\<close> the results are
  9, 45 and 189. The encoding exists for every group whose keys have 32 bytes and whose
  numbers fit their fields (\<open>serialize_GroupData_total\<close>); for any other group the
  serializer, and with it \<open>groupAccountSpace\<close>, throws.
\<close>

theorem groupAccountSpace_exact:
  assumes "serialize_GroupData groupData = Inr bs"
  shows "length bs = 4 + 36 * length (members groupData) + 4
       \<and> groupAccountSpace groupData = Inr (length bs + 1)
       \<and> groupAccountSpace groupData = Inr (36 * length (members groupData) + 9)"
  using serialize_GroupData_length [OF assms] assms
  by (simp add: groupAccountSpace_def)

theorem groupAccountSpace_exact_witness:
  "groupAccountSpace \<lparr>members = [], threshold = 2\<rparr> = Inr 9
 \<and> groupAccountSpace \<lparr>members = [\<lparr>publicKey = replicate 32 7, weight = 1\<rparr>], threshold = 2\<rparr>
      = Inr 45
 \<and> groupAccountSpace
      \<lparr>members = replicate 5 \<lparr>publicKey = replicate 32 7, weight = 1\<rparr>, threshold = 2\<rparr>
      = Inr 189"
proof -
  have h0: "serialize_GroupData \<lparr>members = [], threshold = 2\<rparr> = Inr [0, 0, 0, 0, 2, 0, 0, 0]"
    by code_simp
  have h1: "serialize_GroupData
              \<lparr>members = [\<lparr>publicKey = replicate 32 7, weight = 1\<rparr>], threshold = 2\<rparr>
            = Inr ([1, 0, 0, 0] @ replicate 32 7 @ [1, 0, 0, 0] @ [2, 0, 0, 0])"
    by code_simp
  have h5: "serialize_GroupData
              \<lparr>members = replicate 5 \<lparr>publicKey = replicate 32 7, weight = 1\<rparr>, threshold = 2\<rparr>
            = Inr ([5, 0, 0, 0] @ concat (replicate 5 (replicate 32 7 @ [1, 0, 0, 0]))
                   @ [2, 0, 0, 0])"
    by code_simp
  show ?thesis
    using groupAccountSpace_exact [OF h0] groupAccountSpace_exact [OF h1]
      groupAccountSpace_exact [OF h5]
    by simp
qed

text \<open>
  Claim C8 as stated puts the fixed overhead at the type tag and the length prefix
  (1 + 4 bytes). The group without members, encoded in 8 bytes, gets 9 bytes, not 13.
\<close>

theorem groupAccountSpace_overhead_counterexample:
  "serialize_GroupData \<lparr>members = [], threshold = 2\<rparr> = Inr [0, 0, 0, 0, 2, 0, 0, 0]
 \<and> groupAccountSpace \<lparr>members = [], threshold = 2\<rparr>
      \<noteq> Inr (length [0, 0, 0, 0, 2, 0, 0, 0 :: byte] + (1 + 4))"
  by code_simp

text \<open>
  Claim C10. For every ProposalConfig that has a canonical encoding \<open>bs\<close>,
  \<open>proposalAccountSpace\<close> returns \<open>length bs + 17\<close>: the constant mock state
  \<open>{members: 1, current_weight: 1}\<close> is encoded in 12 bytes (a u64 and a u32) after the
  config, and 4 bytes for a length and 1 byte for the tag are added. The function takes
  the config only, so no proposal state can change the result.
\<close>

theorem proposalAccountSpace_exact:
  assumes "serialize_ProposalConfig cfg = Inr bs"
  shows "\<exists>st. serialize_ProposalState mockState = Inr st \<and> length st = 12
            \<and> serialize_ProposalData \<lparr>config = cfg, state = mockState\<rparr> = Inr (bs @ st)
            \<and> proposalAccountSpace cfg = Inr (length bs + 12 + 4 + 1)
            \<and> proposalAccountSpace cfg = Inr (length bs + 17)"
proof -
  let ?st = "[1, 0, 0, 0, 0, 0, 0, 0, 1, 0, 0, 0] :: byte list"
  have d: "serialize_ProposalData \<lparr>config = cfg, state = mockState\<rparr> = Inr (bs @ ?st)"
    using assms serialize_mockState by (simp add: serialize_ProposalData_Inr)
  then have "proposalAccountSpace cfg = Inr (length bs + 17)"
    by (simp add: proposalAccountSpace_def)
  with d serialize_mockState show ?thesis by simp
qed

theorem proposalAccountSpace_exact_witness:
  "proposalAccountSpace
     \<lparr>group = replicate 32 3,
      config_instruction =
        \<lparr>program_id = replicate 32 0,
         accounts = [\<lparr>pubkey = replicate 32 9, is_signer = True, is_writable = False\<rparr>],
         instr_data = [2, 0, 0, 0, 5]\<rparr>\<rparr> = Inr 128"
proof -
  have h: "serialize_ProposalConfig
     \<lparr>group = replicate 32 3,
      config_instruction =
        \<lparr>program_id = replicate 32 0,
         accounts = [\<lparr>pubkey = replicate 32 9, is_signer = True, is_writable = False\<rparr>],
         instr_data = [2, 0, 0, 0, 5]\<rparr>\<rparr>
     = Inr (replicate 32 3 @ replicate 32 0 @ [1, 0, 0, 0] @ replicate 32 9 @ [1, 0]
            @ [5, 0, 0, 0, 2, 0, 0, 0, 5])"
    by code_simp
  show ?thesis using proposalAccountSpace_exact [OF h] by auto
qed

section \<open>The key list of propose\<close>

text \<open>
  Claim C5. Whenever the proposal address and the protected address can be derived and
  the instruction data can be serialized, \<open>propose\<close> returns an instruction whose key
  list is exactly: the proposer (signer, writable), the group (not signer, writable), the
  derived proposal address (not signer, writable), the system program (not signer,
  read-only), the proposed instruction's target program (not signer, read-only), and
  then one entry per account of the proposed instruction, in order, with its address,
  its supplied writable flag, and its supplied signer flag unless the address is the
  protected account's, in which case the flag is false.
\<close>

theorem propose_keys:
  assumes pk: "proposalAccountKey L this
                 \<lparr>group = toBuffer groupKey, config_instruction = instruction d\<rparr> = Inr proposalKey"
    and prot: "protectedAccountKey L this groupKey = Inr protectedKey"
    and buf: "serialize_InstructionData (Propose d) = Inr buffer"
  shows "\<exists>ti. propose L this d groupKey signerKey = Inr ti
          \<and> keys ti =
              [\<lparr>key_pubkey = signerKey, isSigner = True, isWritable = True\<rparr>,
               \<lparr>key_pubkey = groupKey, isSigner = False, isWritable = True\<rparr>,
               \<lparr>key_pubkey = proposalKey, isSigner = False, isWritable = True\<rparr>,
               \<lparr>key_pubkey = SystemProgram_programId L, isSigner = False, isWritable = False\<rparr>,
               \<lparr>key_pubkey = PublicKey (word_of_int (be_int (program_id (instruction d)))),
                isSigner = False, isWritable = False\<rparr>]
              @ map (\<lambda>a. \<lparr>key_pubkey = PublicKey (word_of_int (be_int (pubkey a))),
                          isSigner = (PublicKey (word_of_int (be_int (pubkey a))) \<noteq> protectedKey
                                      \<and> is_signer a),
                          isWritable = is_writable a\<rparr>)
                  (accounts (instruction d))"
proof -
  from proposalAccountKey_Inr [OF pk] obtain bs where
    "serialize_ProposalConfig \<lparr>group = toBuffer groupKey, config_instruction = instruction d\<rparr>
       = Inr bs" ..
  from serialize_ProposalConfig_keys [OF this]
  have p: "length (program_id (instruction d)) = 32"
    and a: "\<forall>a\<in>set (accounts (instruction d)). length (pubkey a) = 32"
    by simp_all
  have m: "mapE (rewrite_account protectedKey) (accounts (instruction d))
             = Inr (map (\<lambda>a. \<lparr>key_pubkey = PublicKey (word_of_int (be_int (pubkey a))),
                          isSigner = (PublicKey (word_of_int (be_int (pubkey a))) \<noteq> protectedKey
                                      \<and> is_signer a),
                          isWritable = is_writable a\<rparr>) (accounts (instruction d)))"
    by (rule mapE_total) (simp add: a rewrite_account_32)
  show ?thesis
    using pk prot buf m new_PublicKey_32 [OF p]
    by (simp add: propose_def)
qed

theorem propose_keys_witness:
  "\<exists>ti. propose
       \<lparr>SHA256 = take 32,
        findProgramAddress =
          (\<lambda>seeds pid. Inr (PublicKey (word_of_int (sum_list (map uint (concat seeds)))), 255)),
        SystemProgram_programId = PublicKey 0\<rparr>
       \<lparr>programId = PublicKey 77\<rparr>
       \<lparr>instruction =
          \<lparr>program_id = replicate 31 0 @ [3],
           accounts = [\<lparr>pubkey = replicate 31 0 @ [9], is_signer = True, is_writable = True\<rparr>,
                       \<lparr>pubkey = replicate 31 0 @ [4], is_signer = True, is_writable = False\<rparr>],
           instr_data = [2, 0, 0, 0, 5]\<rparr>,
        lamports = 1000\<rparr>
       (PublicKey 7) (PublicKey 5) = Inr ti
     \<and> keys ti =
         [\<lparr>key_pubkey = PublicKey 5, isSigner = True, isWritable = True\<rparr>,
          \<lparr>key_pubkey = PublicKey 7, isSigner = False, isWritable = True\<rparr>,
          \<lparr>key_pubkey = PublicKey 8, isSigner = False, isWritable = True\<rparr>,
          \<lparr>key_pubkey = PublicKey 0, isSigner = False, isWritable = False\<rparr>,
          \<lparr>key_pubkey = PublicKey 3, isSigner = False, isWritable = False\<rparr>,
          \<lparr>key_pubkey = PublicKey 9, isSigner = False, isWritable = True\<rparr>,
          \<lparr>key_pubkey = PublicKey 4, isSigner = True, isWritable = False\<rparr>]"
proof -
  let ?L = "\<lparr>SHA256 = take 32,
        findProgramAddress =
          (\<lambda>seeds pid. Inr (PublicKey (word_of_int (sum_list (map uint (concat seeds)))), 255)),
        SystemProgram_programId = PublicKey 0\<rparr>"
  let ?M = "\<lparr>programId = PublicKey 77\<rparr>"
  let ?i = "\<lparr>program_id = replicate 31 0 @ [3],
           accounts = [\<lparr>pubkey = replicate 31 0 @ [9], is_signer = True, is_writable = True\<rparr>,
                       \<lparr>pubkey = replicate 31 0 @ [4], is_signer = True, is_writable = False\<rparr>],
           instr_data = [2, 0, 0, 0, 5]\<rparr>"
  let ?d = "\<lparr>instruction = ?i, lamports = 1000\<rparr>"
  have pk: "proposalAccountKey ?L ?M
              \<lparr>group = toBuffer (PublicKey 7), config_instruction = instruction ?d\<rparr>
            = Inr (PublicKey 8)"
    by code_simp
  have prot: "protectedAccountKey ?L ?M (PublicKey 7) = Inr (PublicKey 9)"
    by code_simp
  have buf: "serialize_InstructionData (Propose ?d)
             = Inr ([1, 0, 0, 0] @ replicate 31 0 @ [3] @ [2, 0, 0, 0]
                    @ replicate 31 0 @ [9, 1, 1] @ replicate 31 0 @ [4, 1, 0]
                    @ [5, 0, 0, 0, 2, 0, 0, 0, 5] @ [232, 3, 0, 0, 0, 0, 0, 0])"
    by code_simp
  have k: "(word_of_int (be_int (replicate 31 0 @ [3])) :: 256 word) = 3"
    "(word_of_int (be_int (replicate 31 0 @ [9])) :: 256 word) = 9"
    "(word_of_int (be_int (replicate 31 0 @ [4])) :: 256 word) = 4"
    by code_simp+
  show ?thesis
    using propose_keys [OF pk prot buf, of "PublicKey 5"] by (simp add: k)
qed

section \<open>The signer rewrite\<close>




section \<open>Derived addresses\<close>

text \<open>
  Claim C6. Two ProposalConfig values whose serializations are byte-identical give the
  same result of \<open>proposalAccountKey\<close>. Equivalently, two calls of \<open>propose\<close> for the
  same group and the same proposed instruction, whoever proposes and whatever the
  lamports, put the same proposal address into the instruction they return.
\<close>

theorem proposalAccountKey_dedup:
  "(serialize_ProposalConfig c1 = serialize_ProposalConfig c2 \<longrightarrow>
      proposalAccountKey L this c1 = proposalAccountKey L this c2)
 \<and> (propose L this d1 groupKey signer1 = Inr t1
      \<and> propose L this d2 groupKey signer2 = Inr t2
      \<and> instruction d1 = instruction d2 \<longrightarrow>
      keys t1 ! 2 = keys t2 ! 2)"
proof (intro conjI impI)
  assume "serialize_ProposalConfig c1 = serialize_ProposalConfig c2"
  then show "proposalAccountKey L this c1 = proposalAccountKey L this c2"
    by (simp add: proposalAccountKey_def)
next
  assume a: "propose L this d1 groupKey signer1 = Inr t1
      \<and> propose L this d2 groupKey signer2 = Inr t2
      \<and> instruction d1 = instruction d2"
  from a propose_Inr [of L this d1 groupKey signer1 t1] obtain k1 where
    k1: "proposalAccountKey L this
          \<lparr>group = toBuffer groupKey, config_instruction = instruction d1\<rparr> = Inr k1"
      "keys t1 ! 2 = \<lparr>key_pubkey = k1, isSigner = False, isWritable = True\<rparr>"
    by auto
  from a propose_Inr [of L this d2 groupKey signer2 t2] obtain k2 where
    k2: "proposalAccountKey L this
          \<lparr>group = toBuffer groupKey, config_instruction = instruction d2\<rparr> = Inr k2"
      "keys t2 ! 2 = \<lparr>key_pubkey = k2, isSigner = False, isWritable = True\<rparr>"
    by auto
  from a k1(1) k2(1) have "k1 = k2" by simp
  with k1(2) k2(2) show "keys t1 ! 2 = keys t2 ! 2" by simp
qed

theorem proposalAccountKey_dedup_witness:
  "serialize_ProposalConfig
       \<lparr>group = replicate 31 0 @ [7],
        config_instruction =
          \<lparr>program_id = replicate 31 0 @ [3], accounts = [], instr_data = [5]\<rparr>\<rparr>
   = serialize_ProposalConfig
       \<lparr>group = toBuffer (PublicKey 7),
        config_instruction =
          \<lparr>program_id = replicate 31 0 @ [3], accounts = [], instr_data = [5]\<rparr>\<rparr>
 \<and> proposalAccountKey
       \<lparr>SHA256 = take 32,
        findProgramAddress =
          (\<lambda>seeds pid. Inr (PublicKey (word_of_int (sum_list (map uint (concat seeds)))), 255)),
        SystemProgram_programId = PublicKey 0\<rparr>
       \<lparr>programId = PublicKey 77\<rparr>
       \<lparr>group = replicate 31 0 @ [7],
        config_instruction =
          \<lparr>program_id = replicate 31 0 @ [3], accounts = [], instr_data = [5]\<rparr>\<rparr>
   = Inr (PublicKey 8)
 \<and> proposalAccountKey
       \<lparr>SHA256 = take 32,
        findProgramAddress =
          (\<lambda>seeds pid. Inr (PublicKey (word_of_int (sum_list (map uint (concat seeds)))), 255)),
        SystemProgram_programId = PublicKey 0\<rparr>
       \<lparr>programId = PublicKey 77\<rparr>
       \<lparr>group = toBuffer (PublicKey 7),
        config_instruction =
          \<lparr>program_id = replicate 31 0 @ [3], accounts = [], instr_data = [5]\<rparr>\<rparr>
   = Inr (PublicKey 8)
 \<and> propose
       \<lparr>SHA256 = take 32,
        findProgramAddress =
          (\<lambda>seeds pid. Inr (PublicKey (word_of_int (sum_list (map uint (concat seeds)))), 255)),
        SystemProgram_programId = PublicKey 0\<rparr>
       \<lparr>programId = PublicKey 77\<rparr>
       \<lparr>instruction =
          \<lparr>program_id = replicate 31 0 @ [3], accounts = [], instr_data = [5]\<rparr>,
        lamports = 1000\<rparr>
       (PublicKey 7) (PublicKey 5)
   = Inr
       \<lparr>keys =
         [\<lparr>key_pubkey = PublicKey 5, isSigner = True, isWritable = True\<rparr>,
          \<lparr>key_pubkey = PublicKey 7, isSigner = False, isWritable = True\<rparr>,
          \<lparr>key_pubkey = PublicKey 8, isSigner = False, isWritable = True\<rparr>,
          \<lparr>key_pubkey = PublicKey 0, isSigner = False, isWritable = False\<rparr>,
          \<lparr>key_pubkey = PublicKey 3, isSigner = False, isWritable = False\<rparr>],
         ti_programId = PublicKey 77,
         ti_data = [1, 0, 0, 0] @ replicate 31 0 @ [3] @ [0, 0, 0, 0] @ [1, 0, 0, 0, 5]
                   @ [232, 3, 0, 0, 0, 0, 0, 0]\<rparr>
 \<and> propose
       \<lparr>SHA256 = take 32,
        findProgramAddress =
          (\<lambda>seeds pid. Inr (PublicKey (word_of_int (sum_list (map uint (concat seeds)))), 255)),
        SystemProgram_programId = PublicKey 0\<rparr>
       \<lparr>programId = PublicKey 77\<rparr>
       \<lparr>instruction =
          \<lparr>program_id = replicate 31 0 @ [3], accounts = [], instr_data = [5]\<rparr>,
        lamports = 2000\<rparr>
       (PublicKey 7) (PublicKey 6)
   = Inr
       \<lparr>keys =
         [\<lparr>key_pubkey = PublicKey 6, isSigner = True, isWritable = True\<rparr>,
          \<lparr>key_pubkey = PublicKey 7, isSigner = False, isWritable = True\<rparr>,
          \<lparr>key_pubkey = PublicKey 8, isSigner = False, isWritable = True\<rparr>,
          \<lparr>key_pubkey = PublicKey 0, isSigner = False, isWritable = False\<rparr>,
          \<lparr>key_pubkey = PublicKey 3, isSigner = False, isWritable = False\<rparr>],
         ti_programId = PublicKey 77,
         ti_data = [1, 0, 0, 0] @ replicate 31 0 @ [3] @ [0, 0, 0, 0] @ [1, 0, 0, 0, 5]
                   @ [208, 7, 0, 0, 0, 0, 0, 0]\<rparr>"
  (is "?h \<and> ?k \<and> ?k' \<and> ?a \<and> ?b")
proof -
  have h: ?h by code_simp
  have k: ?k by code_simp
  have a: ?a by code_simp
  have b: ?b by code_simp
  have i: "instruction \<lparr>instruction = \<lparr>program_id = replicate 31 0 @ [3], accounts = [], instr_data = [5]\<rparr>,
        lamports = 1000\<rparr>
      = instruction \<lparr>instruction = \<lparr>program_id = replicate 31 0 @ [3], accounts = [], instr_data = [5]\<rparr>,
        lamports = 2000\<rparr>"
    by simp
  note proposalAccountKey_dedup [THEN conjunct1, THEN mp, OF h]
    proposalAccountKey_dedup [THEN conjunct2, THEN mp, OF conjI [OF a conjI [OF b i]]]
  then show ?thesis using h k a b by simp
qed

text \<open>
  Claim C2, as amended. The group address and the proposal address are derived by
  \<open>findProgramAddress\<close> from the seed tag, the SHA-256 digest of the canonical
  serialized bytes of the input structure, and the program identity, with the single
  byte 0x00 as the tag for a group and 0x01 for a proposal. The protected address is
  derived with the tag 0x02 from the 32 bytes of the group address itself: no digest is
  taken, and the result does not depend on the digest function at all.
\<close>

theorem derived_address_seeds:
  "groupAccountKey L this groupData =
     bindE (serialize_GroupData groupData) (\<lambda>bytes.
     bindE (findProgramAddress L [[0], SHA256 L bytes] (programId this)) (\<lambda>(key, nonce).
     Inr key))
 \<and> proposalAccountKey L this proposalConfig =
     bindE (serialize_ProposalConfig proposalConfig) (\<lambda>bytes.
     bindE (findProgramAddress L [[1], SHA256 L bytes] (programId this)) (\<lambda>(key, nonce).
     Inr key))
 \<and> protectedAccountKey L this groupKey =
     bindE (findProgramAddress L [[2], toBuffer groupKey] (programId this)) (\<lambda>(key, nonce).
     Inr key)
 \<and> length (toBuffer groupKey) = 32
 \<and> protectedAccountKey (L\<lparr>SHA256 := h\<rparr>) this groupKey = protectedAccountKey L this groupKey"
  by (simp add: groupAccountKey_def proposalAccountKey_def protectedAccountKey_def
      sha256_hash_bytes PDA_TAG_group_def PDA_TAG_proposal_def PDA_TAG_protected_def
      toBuffer_def)

text \<open>
  Claim C2 as stated makes the protected address the address derived from the tag 0x02
  and the digest of the group address's bytes. With a digest that returns 32 bytes
  \<open>1\<close> and an address function that adds up the seed bytes, the group address 7 would
  get 2 + 32 = 34; \<open>protectedAccountKey\<close> gives 2 + 7 = 9.
\<close>

theorem protectedAccountKey_digest_counterexample:
  "protectedAccountKey
     \<lparr>SHA256 = (\<lambda>bytes. replicate 32 1),
      findProgramAddress =
        (\<lambda>seeds pid. Inr (PublicKey (word_of_int (sum_list (map uint (concat seeds)))), 255)),
      SystemProgram_programId = PublicKey 0\<rparr>
     \<lparr>programId = PublicKey 77\<rparr> (PublicKey 7) = Inr (PublicKey 9)
 \<and> bindE (findProgramAddress
            \<lparr>SHA256 = (\<lambda>bytes. replicate 32 1),
             findProgramAddress =
               (\<lambda>seeds pid.
                  Inr (PublicKey (word_of_int (sum_list (map uint (concat seeds)))), 255)),
             SystemProgram_programId = PublicKey 0\<rparr>
            [[2], SHA256
                    \<lparr>SHA256 = (\<lambda>bytes. replicate 32 1),
                     findProgramAddress =
                       (\<lambda>seeds pid.
                          Inr (PublicKey (word_of_int (sum_list (map uint (concat seeds)))),
                               255)),
                     SystemProgram_programId = PublicKey 0\<rparr>
                    (toBuffer (PublicKey 7))]
            (PublicKey 77))
          (\<lambda>(key, nonce). Inr key) = (Inr (PublicKey 34) :: error + PublicKey)
 \<and> PublicKey 9 \<noteq> PublicKey 34"
  by code_simp

section \<open>The instruction envelope\<close>

lemma write_enum_index_bytes:
  "write_enum_index 0 = Inr [0, 0, 0, 0]"
  "write_enum_index (Suc 0) = Inr [1, 0, 0, 0]"
  "write_enum_index (Suc (Suc 0)) = Inr [2, 0, 0, 0]"
  by code_simp+

lemma write_all_prefix:
  "write_all [Inr a, r] = bindE r (\<lambda>p. Inr (a @ p))"
  by (cases r) (simp_all add: write_all.simps)

text \<open>
  Claim C3. The serialized InstructionData begins with the variant's index as a 4-byte
  unsigned little-endian integer, 0 for Init, 1 for Propose and 2 for Approve (the
  positions of 'init', 'propose' and 'approve' in the \<open>values\<close> of the schema entry),
  followed by the encoding of the variant itself, which for Approve is empty.
\<close>

theorem InstructionData_variant_index:
  "serialize_InstructionData (Init i) =
     bindE (serialize_InitInstruction i) (\<lambda>payload. Inr ([0, 0, 0, 0] @ payload))
 \<and> serialize_InstructionData (Propose p) =
     bindE (serialize_ProposeInstruction p) (\<lambda>payload. Inr ([1, 0, 0, 0] @ payload))
 \<and> serialize_InstructionData Approve = Inr [2, 0, 0, 0]"
  by (simp add: serialize_InstructionData_def InstructionData_values_def
      write_enum_index_bytes write_all_prefix serialize_ApproveInstruction_def)

section \<open>Reading accounts\<close>

lemma anyNonZero_iff: "anyNonZero buffer \<longleftrightarrow> (\<exists>b\<in>set buffer. b \<noteq> 0)"
  by (induction buffer) auto

text \<open>
  Claim C9. A proposal account owned by the program whose data is empty or consists of
  zero bytes only makes \<open>readProposalAccountData\<close> fail with the zero-data error. The
  discriminant check alone would report empty data or an invalid account type on the
  same data; it is never reached, the zero check coming first.
\<close>

theorem zero_data_before_type_check:
  assumes "owner info = programId this"
    and "\<forall>b\<in>set (data info). b = 0"
  shows "readProposalAccountData deserialize this info = Inl DataIsZero
       \<and> checkAccountType (data info) ACCOUNT_TYPE_TAG_proposal =
           (if data info = [] then Inl AccountDataEmpty else Inl InvalidAccountType)"
proof -
  have "\<not> anyNonZero (data info)"
    using assms(2) by (simp add: anyNonZero_iff)
  moreover have "data info \<noteq> [] \<Longrightarrow> data info ! 0 = 0"
    using assms(2) by (cases "data info") simp_all
  ultimately show ?thesis
    using assms(1)
    by (simp add: readProposalAccountData_def checkAccountType_def
        ACCOUNT_TYPE_TAG_proposal_def)
qed

theorem zero_data_before_type_check_witness:
  "readProposalAccountData (\<lambda>payload. Inr payload) \<lparr>programId = PublicKey 77\<rparr>
     \<lparr>owner = PublicKey 77, data = []\<rparr> = Inl DataIsZero
 \<and> checkAccountType [] ACCOUNT_TYPE_TAG_proposal = Inl AccountDataEmpty
 \<and> readProposalAccountData (\<lambda>payload. Inr payload) \<lparr>programId = PublicKey 77\<rparr>
     \<lparr>owner = PublicKey 77, data = [0, 0, 0]\<rparr> = Inl DataIsZero
 \<and> checkAccountType [0, 0, 0] ACCOUNT_TYPE_TAG_proposal = Inl InvalidAccountType"
  using zero_data_before_type_check
      [of "\<lparr>owner = PublicKey 77, data = []\<rparr>" "\<lparr>programId = PublicKey 77\<rparr>"
        "\<lambda>payload. Inr payload"]
    zero_data_before_type_check
      [of "\<lparr>owner = PublicKey 77, data = [0, 0, 0]\<rparr>" "\<lparr>programId = PublicKey 77\<rparr>"
        "\<lambda>payload. Inr payload"]
  by simp

text \<open>
  Claim C4, as amended. For a proposal account owned by the program whose bytes after
  the first are all zero, the report depends on the first byte, the discriminant: the
  zero-data error when it is zero as well (the whole buffer is zero), the type-mismatch
  error when it is neither 0 nor 1, and whatever the decoder makes of the zero payload
  when it is 1, the tag of a proposal.
\<close>

theorem zero_payload_report:
  assumes "owner info = programId this"
    and "data info = d # payload"
    and "\<forall>b\<in>set payload. b = 0"
  shows "readProposalAccountData deserialize this info =
           (if d = 0 then Inl DataIsZero
            else if d \<noteq> 1 then Inl InvalidAccountType
            else deserialize payload)"
  using assms
  by (simp add: readProposalAccountData_def checkAccountType_def anyNonZero_iff
      ACCOUNT_TYPE_TAG_proposal_def)

theorem zero_payload_report_witness:
  "readProposalAccountData (\<lambda>payload. Inr payload) \<lparr>programId = PublicKey 77\<rparr>
     \<lparr>owner = PublicKey 77, data = [0, 0, 0, 0]\<rparr> = Inl DataIsZero
 \<and> readProposalAccountData (\<lambda>payload. Inr payload) \<lparr>programId = PublicKey 77\<rparr>
     \<lparr>owner = PublicKey 77, data = [1, 0, 0, 0]\<rparr> = Inr [0, 0, 0]"
  using zero_payload_report
      [of "\<lparr>owner = PublicKey 77, data = [0, 0, 0, 0]\<rparr>" "\<lparr>programId = PublicKey 77\<rparr>"
        0 "[0, 0, 0]" "\<lambda>payload. Inr payload"]
    zero_payload_report
      [of "\<lparr>owner = PublicKey 77, data = [1, 0, 0, 0]\<rparr>" "\<lparr>programId = PublicKey 77\<rparr>"
        1 "[0, 0, 0]" "\<lambda>payload. Inr payload"]
  by simp

text \<open>
  Claim C4 as stated fails on the buffers \<open>[2, 0, 0, 0]\<close> and \<open>[1, 0, 0, 0]\<close>, whose bytes
  after the discriminant are all zero: the first is reported as a type mismatch, the
  second is handed to the decoder.
\<close>

theorem zero_payload_counterexample:
  "readProposalAccountData (\<lambda>payload. Inr payload) \<lparr>programId = PublicKey 77\<rparr>
     \<lparr>owner = PublicKey 77, data = [2, 0, 0, 0]\<rparr>
     = (Inl InvalidAccountType :: error + byte list)
 \<and> readProposalAccountData (\<lambda>payload. Inr payload) \<lparr>programId = PublicKey 77\<rparr>
     \<lparr>owner = PublicKey 77, data = [1, 0, 0, 0]\<rparr> = Inr [0, 0, 0]
 \<and> (Inl InvalidAccountType :: error + byte list) \<noteq> Inl DataIsZero
 \<and> (Inr [0, 0, 0] :: error + byte list) \<noteq> Inl DataIsZero"
  by (simp add: readProposalAccountData_def checkAccountType_def
      ACCOUNT_TYPE_TAG_proposal_def)

text \<open>
  Claim C7, as amended. Both readers fail with the owner-mismatch error whenever the
  account's owner is not the program identity. When the owner matches and the data is
  not empty, \<open>readGroupAccountData\<close> fails with the type-mismatch error whenever the
  first byte is not 0, and \<open>readProposalAccountData\<close> whenever the first byte is not 1
  and some byte of the data is not zero (data that is all zero is reported as zero
  data instead). When the first byte is the expected tag, the result is the decoder's
  result on the data from its second byte on; a reader succeeds only in that way.
\<close>

theorem account_guards:
  "(owner info \<noteq> programId this \<longrightarrow>
      readGroupAccountData dg this info = Inl InvalidAccountOwner
      \<and> readProposalAccountData dp this info = Inl InvalidAccountOwner)
 \<and> (owner info = programId this \<and> data info = d # rest \<and> d \<noteq> 0 \<longrightarrow>
      readGroupAccountData dg this info = Inl InvalidAccountType)
 \<and> (owner info = programId this \<and> data info = d # rest \<and> d \<noteq> 1
        \<and> anyNonZero (data info) \<longrightarrow>
      readProposalAccountData dp this info = Inl InvalidAccountType)
 \<and> (owner info = programId this \<and> data info = 0 # rest \<longrightarrow>
      readGroupAccountData dg this info = dg rest)
 \<and> (owner info = programId this \<and> data info = 1 # rest \<longrightarrow>
      readProposalAccountData dp this info = dp rest)
 \<and> (readGroupAccountData dg this info = Inr g \<longrightarrow>
      owner info = programId this
      \<and> (\<exists>payload. data info = 0 # payload \<and> dg payload = Inr g))
 \<and> (readProposalAccountData dp this info = Inr p \<longrightarrow>
      owner info = programId this
      \<and> (\<exists>payload. data info = 1 # payload \<and> dp payload = Inr p))"
  by (cases "data info")
    (auto simp: readGroupAccountData_def readProposalAccountData_def checkAccountType_def
      ACCOUNT_TYPE_TAG_group_def ACCOUNT_TYPE_TAG_proposal_def bindE_Inr_iff
      split: if_splits)

theorem account_guards_witness:
  "readGroupAccountData (\<lambda>payload. Inr payload) \<lparr>programId = PublicKey 77\<rparr>
     \<lparr>owner = PublicKey 5, data = [0, 9]\<rparr> = Inl InvalidAccountOwner
 \<and> readProposalAccountData (\<lambda>payload. Inr payload) \<lparr>programId = PublicKey 77\<rparr>
     \<lparr>owner = PublicKey 5, data = [0, 9]\<rparr> = Inl InvalidAccountOwner
 \<and> readGroupAccountData (\<lambda>payload. Inr payload) \<lparr>programId = PublicKey 77\<rparr>
     \<lparr>owner = PublicKey 77, data = [1, 9]\<rparr> = Inl InvalidAccountType
 \<and> readProposalAccountData (\<lambda>payload. Inr payload) \<lparr>programId = PublicKey 77\<rparr>
     \<lparr>owner = PublicKey 77, data = [0, 9]\<rparr> = Inl InvalidAccountType
 \<and> readGroupAccountData (\<lambda>payload. Inr payload) \<lparr>programId = PublicKey 77\<rparr>
     \<lparr>owner = PublicKey 77, data = [0, 9]\<rparr> = Inr [9]
 \<and> readProposalAccountData (\<lambda>payload. Inr payload) \<lparr>programId = PublicKey 77\<rparr>
     \<lparr>owner = PublicKey 77, data = [1, 9]\<rparr> = Inr [9]"
  using account_guards
      [where info = "\<lparr>owner = PublicKey 5, data = [0, 9]\<rparr>"
         and this = "\<lparr>programId = PublicKey 77\<rparr>"
         and dg = "\<lambda>payload. Inr payload" and dp = "\<lambda>payload. Inr payload"]
    account_guards
      [where info = "\<lparr>owner = PublicKey 77, data = [1, 9]\<rparr>"
         and this = "\<lparr>programId = PublicKey 77\<rparr>"
         and dg = "\<lambda>payload. Inr payload" and dp = "\<lambda>payload. Inr payload"
         and d = 1 and rest = "[9]"]
    account_guards
      [where info = "\<lparr>owner = PublicKey 77, data = [0, 9]\<rparr>"
         and this = "\<lparr>programId = PublicKey 77\<rparr>"
         and dg = "\<lambda>payload. Inr payload" and dp = "\<lambda>payload. Inr payload"
         and d = 0 and rest = "[9]"]
  by simp

text \<open>
  Claim C7 as stated fails on a proposal account whose data is all zero: its first byte,
  0, is not the tag of a proposal, yet the error reported is zero data, not a type
  mismatch.
\<close>

theorem type_mismatch_counterexample:
  "readProposalAccountData (\<lambda>payload. Inr payload) \<lparr>programId = PublicKey 77\<rparr>
     \<lparr>owner = PublicKey 77, data = [0, 0, 0]\<rparr> = (Inl DataIsZero :: error + byte list)
 \<and> [0, 0, 0 :: byte] ! 0 \<noteq> ACCOUNT_TYPE_TAG_proposal
 \<and> (Inl DataIsZero :: error + byte list) \<noteq> Inl InvalidAccountType"
  by (simp add: readProposalAccountData_def ACCOUNT_TYPE_TAG_proposal_def)

end
